theory Spec2Isabelle
  imports Complex_Main "HOL-Library.Char_ord" "HOL-Library.List_Lexorder"
begin

section \<open>Python strings and integers\<close>

text \<open>
  A Python \<open>str\<close> is modelled as the list of its code points, for code points below 256
  (a HOL \<open>char\<close>). Python compares strings code point by code point, which is the
  lexicographic order of \<open>List_Lexorder\<close> over the order of \<open>Char_ord\<close>.

  \<open>str.isdigit()\<close> is true of a non-empty string all of whose characters are digits. Below
  256 these are \<open>0\<close> to \<open>9\<close> and the superscripts U+00B2, U+00B3 and U+00B9; \<open>int()\<close>
  accepts the former and raises \<open>ValueError\<close> on the latter.
\<close>

definition is_ascii_digit :: "char \<Rightarrow> bool" where
  "is_ascii_digit c = (48 \<le> (of_char c :: nat) \<and> (of_char c :: nat) \<le> 57)"

definition is_superscript_digit :: "char \<Rightarrow> bool" where
  "is_superscript_digit c =
     ((of_char c :: nat) = 178 \<or> (of_char c :: nat) = 179 \<or> (of_char c :: nat) = 185)"

definition isdigit :: "string \<Rightarrow> bool" where
  "isdigit s = (s \<noteq> [] \<and> list_all (\<lambda>c. is_ascii_digit c \<or> is_superscript_digit c) s)"

text \<open>
  \<open>int(s)\<close>, on the strings that reach it (every call is behind \<open>isdigit\<close>); \<open>None\<close> is
  \<open>ValueError\<close>. CPython refuses a decimal string of more than
  \<open>sys.int_max_str_digits\<close> digits, 4300 unless configured otherwise, leading zeros
  counted.
\<close>

definition int_max_str_digits :: nat where
  "int_max_str_digits = 4300"

definition py_int :: "string \<Rightarrow> int option" where
  "py_int s =
     (if s \<noteq> [] \<and> list_all is_ascii_digit s \<and> length s \<le> int_max_str_digits
      then Some (foldl (\<lambda>acc c. 10 * acc + int (of_char c - 48)) 0 s)
      else None)"

text \<open>\<open>str(n)\<close> of an integer, as an f-string renders it.\<close>

fun str_nat :: "nat \<Rightarrow> string" where
  "str_nat n =
     (if n < 10 then [''0123456789'' ! n]
      else str_nat (n div 10) @ [''0123456789'' ! (n mod 10)])"

declare str_nat.simps [simp del]

definition str_int :: "int \<Rightarrow> string" where
  "str_int i = (if i < 0 then CHR ''-'' # str_nat (nat (- i)) else str_nat (nat i))"

text \<open>\<open>sep.join(xs)\<close>.\<close>

fun join :: "string \<Rightarrow> string list \<Rightarrow> string" where
  "join sep [] = []"
| "join sep [x] = x"
| "join sep (x # y # ys) = x @ sep @ join sep (y # ys)"

section \<open>Embeds\<close>

definition EMBED_COLOR_SUCCESS :: nat where
  "EMBED_COLOR_SUCCESS = 0x00FF00"

definition EMBED_COLOR_ERROR :: nat where
  "EMBED_COLOR_ERROR = 0xFF0000"

definition EMBED_COLOR_INFO :: nat where
  "EMBED_COLOR_INFO = 0x00BFFF"

record embed =
  title :: string
  description :: string
  color :: nat
  embed_fields :: "(string \<times> string) list"
  footer :: "string option"

definition Embed :: "string \<Rightarrow> string \<Rightarrow> nat \<Rightarrow> embed" where
  "Embed t d c = \<lparr>title = t, description = d, color = c, embed_fields = [], footer = None\<rparr>"

section \<open>Whitelist management\<close>

text \<open>
  \<open>load_whitelist\<close> reads the file system and calls \<open>json.loads\<close>. The environment is what
  those calls answer: whether \<open>os.path.exists\<close> holds, what \<open>open\<close> and \<open>read\<close> give (the
  content, or the exception they raise) and what \<open>json.loads\<close> gives on a content. The
  result is the returned list or the exception that leaves the function.
\<close>

datatype py_exception =
  JSONDecodeError
  | FileNotFoundError
  | PermissionError
  | IsADirectoryError
  | UnicodeDecodeError
  | RecursionError

definition load_whitelist ::
  "bool \<Rightarrow> (py_exception + string) \<Rightarrow> (string \<Rightarrow> py_exception + int list)
     \<Rightarrow> py_exception + int list" where
  "load_whitelist path_exists open_read json_loads =
     (if \<not> path_exists then Inr []
      else
        (case (case open_read of
                 Inl e \<Rightarrow> Inl e
               | Inr content \<Rightarrow> if content = [] then Inr [] else json_loads content) of
           Inl e \<Rightarrow> if e = JSONDecodeError \<or> e = FileNotFoundError then Inr [] else Inl e
         | Inr v \<Rightarrow> Inr v))"

text \<open>
  The authorisation predicates: the result, and the denial embed sent when it is False.
\<close>

definition is_whitelisted :: "int \<Rightarrow> int list \<Rightarrow> int \<Rightarrow> bool \<times> embed option" where
  "is_whitelisted BOT_OWNER_ID whitelisted_users user =
     (if user = BOT_OWNER_ID \<or> user \<in> set whitelisted_users then (True, None)
      else (False, Some (Embed ''Access Denied''
              ''You are not authorized to use this command.'' EMBED_COLOR_ERROR)))"

definition is_bot_owner :: "int \<Rightarrow> int \<Rightarrow> bool \<times> embed option" where
  "is_bot_owner BOT_OWNER_ID user =
     (if user = BOT_OWNER_ID then (True, None)
      else (False, Some (Embed ''Access Denied''
              ''Only the bot owner can manage the whitelist.'' EMBED_COLOR_ERROR)))"

text \<open>
  \<open>manage_whitelist\<close> on the global \<open>whitelisted_users\<close>: the new list, the arguments of
  the calls of \<open>save_whitelist\<close> it made, and the embed it sends. \<open>list.remove\<close> deletes
  the first occurrence. The handler runs behind \<open>is_bot_owner\<close>, so only for the owner.
\<close>

definition manage_whitelist ::
  "int \<Rightarrow> string \<Rightarrow> string option \<Rightarrow> int list \<Rightarrow> int list \<times> int list list \<times> embed" where
  "manage_whitelist BOT_OWNER_ID action_value user_id whitelisted_users =
     (let title = ''Whitelist Management'' in
      if action_value = ''add'' then
        (if user_id = None \<or> user_id = Some [] \<or> \<not> isdigit (the user_id) then
           (whitelisted_users, [],
            Embed title ''Invalid or missing User ID for 'add' action.'' EMBED_COLOR_ERROR)
         else
           (case py_int (the user_id) of
              None \<Rightarrow>
                (whitelisted_users, [], Embed title ''Invalid User ID format.'' EMBED_COLOR_ERROR)
            | Some user_id_int \<Rightarrow>
                if user_id_int = BOT_OWNER_ID then
                  (whitelisted_users, [],
                   Embed title ''The bot owner is always authorized.'' EMBED_COLOR_INFO)
                else if user_id_int \<notin> set whitelisted_users then
                  (whitelisted_users @ [user_id_int], [whitelisted_users @ [user_id_int]],
                   Embed title (''User ID `'' @ str_int user_id_int @ ''` added to the whitelist.'')
                     EMBED_COLOR_SUCCESS)
                else
                  (whitelisted_users, [],
                   Embed title
                     (''User ID `'' @ str_int user_id_int @ ''` is already in the whitelist.'')
                     EMBED_COLOR_INFO)))
      else if action_value = ''remove'' then
        (if user_id = None \<or> user_id = Some [] \<or> \<not> isdigit (the user_id) then
           (whitelisted_users, [],
            Embed title ''Invalid or missing User ID for 'remove' action.'' EMBED_COLOR_ERROR)
         else
           (case py_int (the user_id) of
              None \<Rightarrow>
                (whitelisted_users, [], Embed title ''Invalid User ID format.'' EMBED_COLOR_ERROR)
            | Some user_id_int \<Rightarrow>
                if user_id_int \<in> set whitelisted_users then
                  (remove1 user_id_int whitelisted_users, [remove1 user_id_int whitelisted_users],
                   Embed title
                     (''User ID `'' @ str_int user_id_int @ ''` removed from the whitelist.'')
                     EMBED_COLOR_SUCCESS)
                else
                  (whitelisted_users, [],
                   Embed title
                     (''User ID `'' @ str_int user_id_int @ ''` was not found in the whitelist.'')
                     EMBED_COLOR_INFO)))
      else if action_value = ''list'' then
        (if whitelisted_users = [] then
           (whitelisted_users, [],
            Embed title ''The whitelist is currently empty.'' EMBED_COLOR_INFO)
         else
           (whitelisted_users, [],
            Embed ''Whitelisted User IDs''
              (join [CHR 0x0A] (map (\<lambda>uid. ''`'' @ str_int uid @ ''`'') whitelisted_users))
              EMBED_COLOR_INFO))
      else (whitelisted_users, [], Embed title ''An error occurred.'' EMBED_COLOR_ERROR))"

section \<open>HTTP requests and responses\<close>

text \<open>
  A decoded JSON object, seen through the keys the code reads: each field is what
  \<open>.get(key)\<close> finds, \<open>None\<close> when the key is absent. \<open>get_keys\<close> holds the \<open>key\<close> of
  each element of \<open>keys\<close>, \<open>get_data\<close> the \<open>name\<close> of each element of \<open>data\<close> (when the
  element has one). Values are taken to have the types the data model gives them.
\<close>

record json_object =
  get_message :: "string option"
  get_keys :: "string list option"
  get_nextPageCursor :: "string option"
  get_Username :: "string option"
  get_BannedBy :: "string option"
  get_Reason :: "string option"
  get_Timestamp :: "int option"
  get_data :: "string option list option"

text \<open>
  A \<open>requests.Response\<close>: \<open>json\<close> is what \<open>response.json()\<close> gives, the decoded object or
  the message of the decoding error it raises; \<open>http_error_msg\<close> is the message that
  \<open>raise_for_status\<close> gives its \<open>HTTPError\<close> (the library builds it from the status, the
  reason phrase and the URL).
\<close>

record response =
  status_code :: nat
  response_text :: string
  http_error_msg :: string
  json :: "string + json_object"

text \<open>
  A \<open>requests.exceptions.RequestException\<close>: its \<open>response\<close> attribute and \<open>str(e)\<close>.
\<close>

record request_exception =
  exc_response :: "response option"
  exc_str :: string

text \<open>\<open>raise_for_status\<close> raises \<open>HTTPError\<close> on the statuses 400 to 599.\<close>

definition raise_for_status :: "response \<Rightarrow> request_exception + unit" where
  "raise_for_status r =
     (if 400 \<le> status_code r \<and> status_code r < 600
      then Inl \<lparr>exc_response = Some r, exc_str = http_error_msg r\<rparr>
      else Inr ())"

text \<open>
  \<open>response.json()\<close> raises \<open>requests.exceptions.JSONDecodeError\<close>, which is both a
  \<open>RequestException\<close> (with no response attached) and a \<open>json.JSONDecodeError\<close>: of two
  \<open>except\<close> clauses, the one written first catches it.
\<close>

definition response_json :: "response \<Rightarrow> request_exception + json_object" where
  "response_json r =
     (case json r of
        Inl msg \<Rightarrow> Inl \<lparr>exc_response = None, exc_str = msg\<rparr>
      | Inr obj \<Rightarrow> Inr obj)"

record ban_data =
  Reason :: string
  BannedBy :: string
  Username :: string
  Timestamp :: int

text \<open>
  The requests a command sends, in order. \<open>ListEntries c\<close> is the key listing with
  \<open>cursor_param\<close> built from \<open>c\<close> (no cursor parameter when \<open>c\<close> is empty).
\<close>

datatype http_call =
  ListEntries string
  | GetEntry string
  | PostEntry string ban_data
  | DeleteEntry string
  | PostUsers int

section \<open>Helper functions\<close>

definition get_username_from_id :: "(int \<Rightarrow> request_exception + response) \<Rightarrow> int \<Rightarrow> string" where
  "get_username_from_id users_post user_id =
     (case users_post user_id of
        Inl e \<Rightarrow> ''ID: '' @ str_int user_id
      | Inr response \<Rightarrow>
          (case raise_for_status response of
             Inl e \<Rightarrow> ''ID: '' @ str_int user_id
           | Inr _ \<Rightarrow>
               (case response_json response of
                  Inl e \<Rightarrow> ''ID: '' @ str_int user_id
                | Inr obj \<Rightarrow>
                    (case (case get_data obj of None \<Rightarrow> [] | Some d \<Rightarrow> d) of
                       [] \<Rightarrow> ''ID: '' @ str_int user_id
                     | first # _ \<Rightarrow>
                         (case first of
                            None \<Rightarrow> ''ID: '' @ str_int user_id
                          | Some name \<Rightarrow> name)))))"

definition create_api_error_embed :: "request_exception \<Rightarrow> string \<Rightarrow> embed" where
  "create_api_error_embed error requested_perm =
     (case exc_response error of
        Some r \<Rightarrow>
          if status_code r = 403 then
            \<lparr>title = ''API Key Error (403 Forbidden)'',
             description = ''The bot's API Key does not have the **`'' @ requested_perm
                @ ''`** permission for the DataStore API.'',
             color = EMBED_COLOR_ERROR,
             embed_fields =
               [(''How to Fix'',
                 ''Go to your API Key settings on the Roblox Creator Dashboard and add the **`''
                   @ requested_perm @ ''`** operation to the **'DataStore'** API.''),
                (''Raw Error'',
                 ''```'' @ [CHR 0x0A]
                   @ (case json r of
                        Inl msg \<Rightarrow> response_text r
                      | Inr obj \<Rightarrow>
                          (case get_message obj of None \<Rightarrow> response_text r | Some m \<Rightarrow> m))
                   @ [CHR 0x0A] @ ''```'')],
             footer = None\<rparr>
          else
            \<lparr>title = ''API Request Failed'',
             description = ''An error occurred while contacting the Roblox API.'',
             color = EMBED_COLOR_ERROR,
             embed_fields = [(''Details'', ''```'' @ [CHR 0x0A] @ exc_str error @ [CHR 0x0A] @ ''```'')],
             footer = None\<rparr>
      | None \<Rightarrow>
          \<lparr>title = ''API Request Failed'',
           description = ''An error occurred while contacting the Roblox API.'',
           color = EMBED_COLOR_ERROR,
           embed_fields = [(''Details'', ''```'' @ [CHR 0x0A] @ exc_str error @ [CHR 0x0A] @ ''```'')],
           footer = None\<rparr>)"

section \<open>DataStore commands\<close>

text \<open>
  \<open>int(x)\<close> of a float truncates towards zero. The clock \<open>time.time()\<close> is a real number
  of seconds.
\<close>

definition int_of_float :: "real \<Rightarrow> int" where
  "int_of_float x = (if 0 \<le> x then \<lfloor>x\<rfloor> else \<lceil>x\<rceil>)"

text \<open>
  What a command handler does: it sends one follow-up embed, or an exception leaves it
  (\<open>int(user_id)\<close> is outside every \<open>try\<close>).
\<close>

datatype reply = ValueError | Followup embed

text \<open>
  \<open>banid_cmd\<close>: \<open>users_post\<close> and \<open>entry_post\<close> are what the Users API and the entry write
  answer, \<open>now\<close> the clock, \<open>display_name\<close> the invoking user's display name.
\<close>

definition banid_cmd ::
  "(int \<Rightarrow> request_exception + response) \<Rightarrow> (string \<Rightarrow> ban_data \<Rightarrow> request_exception + response)
     \<Rightarrow> real \<Rightarrow> string \<Rightarrow> string \<Rightarrow> string \<Rightarrow> reply \<times> http_call list" where
  "banid_cmd users_post entry_post now display_name user_id reason =
     (if \<not> isdigit user_id then
        (Followup (Embed ''Invalid Input'' ''UserId must be a number.'' EMBED_COLOR_ERROR), [])
      else
        (case py_int user_id of
           None \<Rightarrow> (ValueError, [])
         | Some user_id_int \<Rightarrow>
             (let username = get_username_from_id users_post user_id_int;
                  ban_data = \<lparr>Reason = reason, BannedBy = display_name @ '' (Discord)'',
                              Username = username, Timestamp = int_of_float now\<rparr>;
                  calls = [PostUsers user_id_int, PostEntry user_id ban_data]
              in
                (case (case entry_post user_id ban_data of
                         Inl e \<Rightarrow> Inl e
                       | Inr response \<Rightarrow> raise_for_status response) of
                   Inl e \<Rightarrow> (Followup (create_api_error_embed e ''Write''), calls)
                 | Inr _ \<Rightarrow>
                     (Followup
                        \<lparr>title = ''User Banned (DataStore)'',
                         description = ''Successfully banned **'' @ username @ ''** (`''
                            @ user_id @ ''`).'',
                         color = EMBED_COLOR_SUCCESS,
                         embed_fields = [(''Reason'', reason)],
                         footer = Some (''Banned by '' @ display_name)\<rparr>,
                      calls)))))"

text \<open>
  \<open>unban_cmd\<close>: \<open>entry_delete\<close> is what the entry delete answers. The username is looked
  up only after a delete that was neither 404 nor an error.
\<close>

definition unban_cmd ::
  "(string \<Rightarrow> request_exception + response) \<Rightarrow> (int \<Rightarrow> request_exception + response)
     \<Rightarrow> string \<Rightarrow> string \<Rightarrow> reply \<times> http_call list" where
  "unban_cmd entry_delete users_post display_name user_id =
     (if \<not> isdigit user_id then
        (Followup (Embed ''Invalid Input'' ''UserId must be a number.'' EMBED_COLOR_ERROR), [])
      else
        (case entry_delete user_id of
           Inl e \<Rightarrow> (Followup (create_api_error_embed e ''Delete''), [DeleteEntry user_id])
         | Inr response \<Rightarrow>
             if status_code response = 404 then
               (Followup (Embed ''User Unbanned''
                  (''User `'' @ user_id @ ''` was not found in the ban list.'') EMBED_COLOR_INFO),
                [DeleteEntry user_id])
             else
               (case raise_for_status response of
                  Inl e \<Rightarrow> (Followup (create_api_error_embed e ''Delete''), [DeleteEntry user_id])
                | Inr _ \<Rightarrow>
                    (case py_int user_id of
                       None \<Rightarrow> (ValueError, [DeleteEntry user_id])
                     | Some user_id_int \<Rightarrow>
                         (Followup
                            \<lparr>title = ''User Unbanned (DataStore)'',
                             description = ''Successfully unbanned **''
                                @ get_username_from_id users_post user_id_int
                                @ ''** (`'' @ user_id @ ''`).'',
                             color = EMBED_COLOR_SUCCESS,
                             embed_fields = [],
                             footer = Some (''Unbanned by '' @ display_name)\<rparr>,
                          [DeleteEntry user_id, PostUsers user_id_int])))))"

section \<open>The ban list\<close>

text \<open>
  \<open>get_datastore_ban_list\<close> in its two phases. \<open>entries_get\<close> is what the key listing
  answers to a cursor (empty for the first request), \<open>entry_get\<close> what the entry read
  answers to a key. Each phase returns the requests sent so far beside its result.

  The first phase is the \<open>while True\<close> loop: it ends when a page has no
  \<open>nextPageCursor\<close> (absent or empty) or a request fails, and runs forever against a
  listing that always continues; \<open>None\<close> is the run that never returns.
\<close>

partial_function (option) list_ban_keys ::
  "(string \<Rightarrow> request_exception + response) \<Rightarrow> string \<Rightarrow> string list \<Rightarrow> http_call list
     \<Rightarrow> ((request_exception + string list) \<times> http_call list) option" where
  "list_ban_keys entries_get next_cursor ban_keys calls =
     (case (case entries_get next_cursor of
              Inl e \<Rightarrow> Inl e
            | Inr response \<Rightarrow>
                (case raise_for_status response of
                   Inl e \<Rightarrow> Inl e
                 | Inr _ \<Rightarrow> response_json response)) of
        Inl e \<Rightarrow> Some (Inl e, calls @ [ListEntries next_cursor])
      | Inr data \<Rightarrow>
          (case get_nextPageCursor data of
             None \<Rightarrow>
               Some (Inr (ban_keys @ (case get_keys data of None \<Rightarrow> [] | Some ks \<Rightarrow> ks)),
                     calls @ [ListEntries next_cursor])
           | Some c \<Rightarrow>
               if c = [] then
                 Some (Inr (ban_keys @ (case get_keys data of None \<Rightarrow> [] | Some ks \<Rightarrow> ks)),
                       calls @ [ListEntries next_cursor])
               else
                 list_ban_keys entries_get c
                   (ban_keys @ (case get_keys data of None \<Rightarrow> [] | Some ks \<Rightarrow> ks))
                   (calls @ [ListEntries next_cursor])))"

text \<open>
  The summary of one record. \<open>strftime_utc\<close> is the library's rendering of an epoch time
  as \<open>%Y-%m-%d %H:%M\<close> in UTC, \<open>None\<close> when the conversion raises.
\<close>

definition ban_summary :: "(int \<Rightarrow> string option) \<Rightarrow> string \<Rightarrow> json_object \<Rightarrow> string" where
  "ban_summary strftime_utc user_id_str ban_data =
     (let username = (case get_Username ban_data of None \<Rightarrow> ''ID: '' @ user_id_str | Some u \<Rightarrow> u);
          banned_by = (case get_BannedBy ban_data of None \<Rightarrow> ''Unknown'' | Some b \<Rightarrow> b);
          reason = (case get_Reason ban_data of None \<Rightarrow> ''No reason'' | Some r \<Rightarrow> r);
          date_str =
            (case get_Timestamp ban_data of
               None \<Rightarrow> ''???''
             | Some timestamp \<Rightarrow>
                 if timestamp = 0 then ''???''
                 else (case strftime_utc timestamp of None \<Rightarrow> ''???'' | Some d \<Rightarrow> d))
      in ''['' @ date_str @ ''] **'' @ username @ ''** (By: '' @ banned_by @ '') - *''
           @ reason @ ''*'')"

text \<open>
  One iteration of the second loop: \<open>Inl e\<close> is \<open>return False, e\<close>, \<open>Inr s\<close> the string
  appended to \<open>ban_list_strings\<close>. A body that does not decode raises a
  \<open>RequestException\<close> without response, which the first \<open>except\<close> clause turns into the
  "Could not fetch" entry; the second clause, with its "Corrupted data" entry, is never
  reached.
\<close>

definition fetch_ban_entry ::
  "(string \<Rightarrow> request_exception + response) \<Rightarrow> (int \<Rightarrow> string option) \<Rightarrow> string
     \<Rightarrow> request_exception + string" where
  "fetch_ban_entry entry_get strftime_utc user_id_str =
     (case (case entry_get user_id_str of
              Inl e \<Rightarrow> Inl e
            | Inr response \<Rightarrow>
                if status_code response = 404 then
                  Inr (''[ERROR] Data for key `'' @ user_id_str @ ''` was not found (404).'')
                else
                  (case raise_for_status response of
                     Inl e \<Rightarrow> Inl e
                   | Inr _ \<Rightarrow>
                       (case response_json response of
                          Inl e \<Rightarrow> Inl e
                        | Inr ban_data \<Rightarrow> Inr (ban_summary strftime_utc user_id_str ban_data)))) of
        Inl e \<Rightarrow>
          (case exc_response e of
             Some r \<Rightarrow>
               if status_code r = 403 then Inl e
               else Inr (''[ERROR] Could not fetch data for key: `'' @ user_id_str @ ''`'')
           | None \<Rightarrow> Inr (''[ERROR] Could not fetch data for key: `'' @ user_id_str @ ''`''))
      | Inr s \<Rightarrow> Inr s)"

fun fetch_ban_entries ::
  "(string \<Rightarrow> request_exception + response) \<Rightarrow> (int \<Rightarrow> string option) \<Rightarrow> string list
     \<Rightarrow> string list \<Rightarrow> http_call list \<Rightarrow> (request_exception + string list) \<times> http_call list" where
  "fetch_ban_entries entry_get strftime_utc [] ban_list_strings calls =
     (Inr ban_list_strings, calls)"
| "fetch_ban_entries entry_get strftime_utc (user_id_str # rest) ban_list_strings calls =
     (case fetch_ban_entry entry_get strftime_utc user_id_str of
        Inl e \<Rightarrow> (Inl e, calls @ [GetEntry user_id_str])
      | Inr s \<Rightarrow>
          fetch_ban_entries entry_get strftime_utc rest (ban_list_strings @ [s])
            (calls @ [GetEntry user_id_str]))"

text \<open>
  The whole function: \<open>Inl e\<close> is \<open>(False, e)\<close>, \<open>Inr xs\<close> is \<open>(True, xs)\<close>.
\<close>

definition get_datastore_ban_list ::
  "(string \<Rightarrow> request_exception + response) \<Rightarrow> (string \<Rightarrow> request_exception + response)
     \<Rightarrow> (int \<Rightarrow> string option) \<Rightarrow> ((request_exception + string list) \<times> http_call list) option" where
  "get_datastore_ban_list entries_get entry_get strftime_utc =
     (case list_ban_keys entries_get [] [] [] of
        None \<Rightarrow> None
      | Some (Inl e, calls) \<Rightarrow> Some (Inl e, calls)
      | Some (Inr ban_keys, calls) \<Rightarrow>
          if ban_keys = [] then Some (Inr [], calls)
          else
            (case fetch_ban_entries entry_get strftime_utc ban_keys [] calls of
               (Inl e, calls') \<Rightarrow> Some (Inl e, calls')
             | (Inr ban_list_strings, calls') \<Rightarrow> Some (Inr (sort ban_list_strings), calls')))"

section \<open>Notions the claims are stated with\<close>

text \<open>
  The page that an answer of the key listing carries, as the first loop reads it: its
  keys and its continuation cursor (empty when there is none); \<open>None\<close> for an answer
  the loop gives up on.
\<close>

definition listing_page :: "request_exception + response \<Rightarrow> (string list \<times> string) option" where
  "listing_page answer =
     (case answer of
        Inl e \<Rightarrow> None
      | Inr r \<Rightarrow>
          if 400 \<le> status_code r \<and> status_code r < 600 then None
          else
            (case json r of
               Inl msg \<Rightarrow> None
             | Inr data \<Rightarrow>
                 Some (case get_keys data of None \<Rightarrow> [] | Some ks \<Rightarrow> ks,
                       case get_nextPageCursor data of None \<Rightarrow> [] | Some c \<Rightarrow> c)))"

text \<open>
  A key listing that, asked from cursor \<open>c\<close> on, returns the given pages one after the
  other: each page carries a cursor that leads to the next, except the last, which
  carries none.
\<close>

fun serves_pages ::
  "(string \<Rightarrow> request_exception + response) \<Rightarrow> string \<Rightarrow> (string list \<times> string) list \<Rightarrow> bool" where
  "serves_pages entries_get c [] = False"
| "serves_pages entries_get c [(ks, nc)] =
     (listing_page (entries_get c) = Some (ks, nc) \<and> nc = [])"
| "serves_pages entries_get c ((ks, nc) # p # ps) =
     (listing_page (entries_get c) = Some (ks, nc) \<and> nc \<noteq> []
      \<and> serves_pages entries_get nc (p # ps))"

text \<open>
  An answer of the entry read that carries a 403: a response with that status, or an
  exception of the request with such a response attached.
\<close>

definition permission_denied :: "request_exception + response \<Rightarrow> bool" where
  "permission_denied answer =
     (case answer of
        Inl e \<Rightarrow> (case exc_response e of None \<Rightarrow> False | Some r \<Rightarrow> status_code r = 403)
      | Inr r \<Rightarrow> status_code r = 403)"

text \<open>
  Modelled from the spec: the remote key-value store, which is a service and no code of
  the repository. An entry write stores the body under the key and replaces what was
  there; an entry read returns what is stored (sections 3 and 6).
\<close>

type_synonym datastore = "string \<rightharpoonup> ban_data"

definition entry_write :: "datastore \<Rightarrow> string \<Rightarrow> ban_data \<Rightarrow> datastore" where
  "entry_write store k d = store(k \<mapsto> d)"

definition entry_read :: "datastore \<Rightarrow> string \<Rightarrow> ban_data option" where
  "entry_read store k = store k"

section \<open>Example scenarios\<close>

text \<open>Concrete responses and endpoints, used to run the commands on explicit inputs.\<close>

definition empty_object :: json_object where
  "empty_object = \<lparr>get_message = None, get_keys = None, get_nextPageCursor = None,
     get_Username = None, get_BannedBy = None, get_Reason = None, get_Timestamp = None,
     get_data = None\<rparr>"

definition http_response :: "nat \<Rightarrow> string + json_object \<Rightarrow> response" where
  "http_response st j = \<lparr>status_code = st, response_text = [], http_error_msg = [], json = j\<rparr>"

definition not_found_delete :: "string \<Rightarrow> request_exception + response" where
  "not_found_delete k = Inr (http_response 404 (Inr empty_object))"

definition no_users :: "int \<Rightarrow> request_exception + response" where
  "no_users n = Inl \<lparr>exc_response = None, exc_str = ''timeout''\<rparr>"

definition accept_post :: "string \<Rightarrow> ban_data \<Rightarrow> request_exception + response" where
  "accept_post k d = Inr (http_response 200 (Inr empty_object))"

definition builderman_users :: "int \<Rightarrow> request_exception + response" where
  "builderman_users n =
     Inr (http_response 200 (Inr (empty_object\<lparr>get_data := Some [Some ''builderman'']\<rparr>)))"


definition listing_response :: "string list \<Rightarrow> string option \<Rightarrow> request_exception + response" where
  "listing_response ks c =
     Inr (http_response 200 (Inr (empty_object\<lparr>get_keys := Some ks, get_nextPageCursor := c\<rparr>)))"

definition two_page_listing :: "string \<Rightarrow> request_exception + response" where
  "two_page_listing c =
     (if c = [] then listing_response [''5'', ''7''] (Some ''next'')
      else listing_response [''6''] (Some []))"

definition denied_listing :: "string \<Rightarrow> request_exception + response" where
  "denied_listing c = listing_response [''7'', ''9'', ''6''] None"

definition ban_entry_response :: "string \<Rightarrow> int \<Rightarrow> request_exception + response" where
  "ban_entry_response u t =
     Inr (http_response 200
            (Inr (empty_object\<lparr>get_Username := Some u, get_BannedBy := Some ''mod (Discord)'',
                                get_Reason := Some ''x'', get_Timestamp := Some t\<rparr>)))"

definition sample_entries :: "string \<Rightarrow> request_exception + response" where
  "sample_entries k =
     (if k = ''5'' then Inr (http_response 404 (Inl ''no body''))
      else if k = ''7'' then ban_entry_response ''zed'' 1
      else if k = ''6'' then ban_entry_response ''amy'' 2
      else Inr (http_response 403 (Inr empty_object)))"

definition sample_strftime :: "int \<Rightarrow> string option" where
  "sample_strftime t = Some ''1970-01-01 00:00''"

section \<open>Basic facts\<close>

lemma colors_distinct:
  "EMBED_COLOR_INFO \<noteq> EMBED_COLOR_ERROR" "EMBED_COLOR_SUCCESS \<noteq> EMBED_COLOR_ERROR"
  "EMBED_COLOR_SUCCESS \<noteq> EMBED_COLOR_INFO"
  by (simp_all add: EMBED_COLOR_INFO_def EMBED_COLOR_ERROR_def EMBED_COLOR_SUCCESS_def)

lemma py_int_isdigit: "py_int u = Some n \<Longrightarrow> isdigit u \<and> u \<noteq> []"
  by (auto simp: py_int_def isdigit_def list_all_iff split: if_splits)

lemma py_int_nonneg: "py_int u = Some n \<Longrightarrow> 0 \<le> n"
proof -
  have "0 \<le> a \<Longrightarrow> 0 \<le> foldl (\<lambda>acc c. 10 * acc + int (of_char c - 48)) a s"
    for a :: int and s :: string
    by (induction s arbitrary: a) auto
  then show "py_int u = Some n \<Longrightarrow> 0 \<le> n"
    by (auto simp: py_int_def split: if_splits)
qed

lemma isdigit_superscript_not_int: "isdigit [CHR 0xB2] \<and> py_int [CHR 0xB2] = None"
  by (simp add: isdigit_def py_int_def is_ascii_digit_def is_superscript_digit_def)

lemma py_int_too_long: "int_max_str_digits < length s \<Longrightarrow> py_int s = None"
  by (simp add: py_int_def)

lemma py_int_length: "py_int u = Some n \<Longrightarrow> length u \<le> 4300"
  by (simp add: py_int_def int_max_str_digits_def split: if_splits)

lemma isdigit_too_long_not_int:
  "isdigit (replicate 4301 (CHR ''0'')) \<and> py_int (replicate 4301 (CHR ''0'')) = None"
  by (simp add: isdigit_def py_int_def is_ascii_digit_def int_max_str_digits_def list_all_iff)

section \<open>The whitelist\<close>

text \<open>
  Claim C7. Adding an identifier that is already in the whitelist, or removing one that is
  not in it, leaves the collection as it was, calls \<open>save_whitelist\<close> not at all, and
  answers with an embed of the informational colour, which is not the error colour.
  An identifier is a user id string that \<open>int()\<close> reads as \<open>n\<close>.
\<close>

theorem whitelist_add_remove_idempotent:
  assumes "py_int u = Some n" and "n \<in> set wl" and "n \<notin> set wl'"
  shows "manage_whitelist owner ''add'' (Some u) wl
           = (wl, [], Embed ''Whitelist Management''
                (if n = owner then ''The bot owner is always authorized.''
                 else ''User ID `'' @ str_int n @ ''` is already in the whitelist.'')
                EMBED_COLOR_INFO)
       \<and> manage_whitelist owner ''remove'' (Some u) wl'
           = (wl', [], Embed ''Whitelist Management''
                (''User ID `'' @ str_int n @ ''` was not found in the whitelist.'')
                EMBED_COLOR_INFO)
       \<and> EMBED_COLOR_INFO \<noteq> EMBED_COLOR_ERROR"
  using assms py_int_isdigit[OF assms(1)]
  by (simp add: manage_whitelist_def colors_distinct)

theorem whitelist_add_remove_idempotent_witness:
  "py_int ''42'' = Some 42 \<and> (42::int) \<in> set [42] \<and> (42::int) \<notin> set [7]
   \<and> manage_whitelist 1 ''add'' (Some ''42'') [42]
       = ([42], [], Embed ''Whitelist Management'' ''User ID `42` is already in the whitelist.''
            EMBED_COLOR_INFO)
   \<and> manage_whitelist 1 ''remove'' (Some ''42'') [7]
       = ([7], [], Embed ''Whitelist Management'' ''User ID `42` was not found in the whitelist.''
            EMBED_COLOR_INFO)"
proof -
  have h1: "py_int ''42'' = Some 42" by (simp add: py_int_def is_ascii_digit_def int_max_str_digits_def)
  have h2: "(42::int) \<in> set [42]" by simp
  have h3: "(42::int) \<notin> set [7]" by simp
  have s: "str_int 42 = ''42''" by (simp add: str_int_def str_nat.simps)
  from whitelist_add_remove_idempotent[OF h1 h2 h3, of 1] h1 h2 h3 s show ?thesis by simp
qed

text \<open>
  Claim C1, as the code has it. For a request that targets the owner (a user id string that
  \<open>int()\<close> reads as the owner's identifier): \<open>add\<close> stores nothing in any whitelist and
  answers with the informational embed; \<open>remove\<close> is an informational no-op on every
  whitelist that does not hold the owner's identifier; no action on such a whitelist puts
  the owner's identifier into it; and the owner passes \<open>is_whitelisted\<close> whatever the
  whitelist holds.
\<close>

theorem owner_never_added_and_always_authorized:
  assumes "py_int u = Some owner" and "owner \<notin> set wl'"
  shows "manage_whitelist owner ''add'' (Some u) wl
           = (wl, [], Embed ''Whitelist Management'' ''The bot owner is always authorized.''
                EMBED_COLOR_INFO)
       \<and> manage_whitelist owner ''remove'' (Some u) wl'
           = (wl', [], Embed ''Whitelist Management''
                (''User ID `'' @ str_int owner @ ''` was not found in the whitelist.'')
                EMBED_COLOR_INFO)
       \<and> owner \<notin> set (fst (manage_whitelist owner action_value user_id wl'))
       \<and> is_whitelisted owner wl owner = (True, None)"
proof -
  note d = py_int_isdigit[OF assms(1)]
  have a: "manage_whitelist owner ''add'' (Some u) wl
           = (wl, [], Embed ''Whitelist Management'' ''The bot owner is always authorized.''
                EMBED_COLOR_INFO)"
    using assms(1) d by (simp add: manage_whitelist_def)
  have b: "manage_whitelist owner ''remove'' (Some u) wl'
           = (wl', [], Embed ''Whitelist Management''
                (''User ID `'' @ str_int owner @ ''` was not found in the whitelist.'')
                EMBED_COLOR_INFO)"
    using assms d by (simp add: manage_whitelist_def)
  have c: "owner \<notin> set (fst (manage_whitelist owner action_value user_id wl'))"
    using assms(2)
    by (auto simp: manage_whitelist_def Let_def split: option.splits dest: notin_set_remove1)
  have e: "is_whitelisted owner wl owner = (True, None)"
    by (simp add: is_whitelisted_def)
  from a b c e show ?thesis by blast
qed

theorem owner_never_added_and_always_authorized_witness:
  "py_int ''7'' = Some 7 \<and> (7::int) \<notin> set [42]
   \<and> manage_whitelist 7 ''add'' (Some ''7'') [42]
       = ([42], [], Embed ''Whitelist Management'' ''The bot owner is always authorized.''
            EMBED_COLOR_INFO)
   \<and> manage_whitelist 7 ''remove'' (Some ''7'') [42]
       = ([42], [], Embed ''Whitelist Management''
            ''User ID `7` was not found in the whitelist.'' EMBED_COLOR_INFO)
   \<and> (7::int) \<notin> set (fst (manage_whitelist 7 ''add'' (Some ''9'') [42]))
   \<and> is_whitelisted 7 [42] 7 = (True, None)"
proof -
  have h1: "py_int ''7'' = Some 7" by (simp add: py_int_def is_ascii_digit_def int_max_str_digits_def)
  have h2: "(7::int) \<notin> set [42]" by simp
  have s: "str_int 7 = ''7''" by (simp add: str_int_def str_nat.simps)
  from owner_never_added_and_always_authorized[OF h1 h2, of "[42]" "''add''" "Some ''9''"]
    h1 h2 s
  show ?thesis by simp
qed

text \<open>
  Claim C1 as stated fails on a whitelist that holds the owner's identifier (the file that
  \<open>load_whitelist\<close> reads may list it, and nothing filters it): with owner 7 and the
  whitelist \<open>[7]\<close>, \<open>remove 7\<close> deletes the entry, saves the empty list and answers with the
  success embed, not an informational no-op.
\<close>

theorem owner_removed_when_stored:
  "manage_whitelist 7 ''remove'' (Some ''7'') [7]
     = ([], [[]], Embed ''Whitelist Management'' ''User ID `7` removed from the whitelist.''
          EMBED_COLOR_SUCCESS)
   \<and> EMBED_COLOR_SUCCESS \<noteq> EMBED_COLOR_INFO"
proof -
  have s: "str_int 7 = ''7''" by (simp add: str_int_def str_nat.simps)
  have p: "py_int ''7'' = Some 7" by (simp add: py_int_def is_ascii_digit_def int_max_str_digits_def)
  have d: "isdigit ''7''" by (simp add: isdigit_def is_ascii_digit_def)
  show ?thesis using s p d by (simp add: manage_whitelist_def colors_distinct)
qed

text \<open>
  What \<open>load_whitelist\<close> catches. When the whitelist file is missing (\<open>os.path.exists\<close> is
  false, or the file is gone when \<open>open\<close> runs), empty, or holds a text on which
  \<open>json.loads\<close> raises \<open>JSONDecodeError\<close>, it returns the empty list and no exception
  leaves it.
\<close>

lemma load_whitelist_empty_on_missing_or_invalid_json:
  assumes "\<not> path_exists \<or> open_read = Inl FileNotFoundError \<or> open_read = Inr []
           \<or> (\<exists>content. open_read = Inr content \<and> json_loads content = Inl JSONDecodeError)"
  shows "load_whitelist path_exists open_read json_loads = Inr []"
  using assms by (auto simp: load_whitelist_def)

text \<open>
  The \<open>except\<close> clause names two exception classes only: any other exception of \<open>open\<close>,
  \<open>read\<close> or \<open>json.loads\<close> leaves \<open>load_whitelist\<close>.
\<close>

lemma load_whitelist_other_exception:
  assumes "path_exists" and "open_read = Inl e" and "e \<noteq> FileNotFoundError"
    and "e \<noteq> JSONDecodeError"
  shows "load_whitelist path_exists open_read json_loads = Inl e"
  using assms by (simp add: load_whitelist_def)

text \<open>
  Claim C8 fails on the code. The function wraps \<open>open\<close>, \<open>read\<close> and \<open>json.loads\<close> in a
  \<open>try\<close> that is meant to turn a file it cannot load or parse into the empty list, but
  the clause misses two ways in which a file is unparseable: a file whose bytes do not
  decode makes \<open>read\<close> raise \<open>UnicodeDecodeError\<close>, and a text nested too deeply makes
  \<open>json.loads\<close> raise \<open>RecursionError\<close>. Both leave \<open>load_whitelist\<close>.
\<close>

theorem load_whitelist_raises_on_unparseable_file:
  "load_whitelist True (Inl UnicodeDecodeError) (\<lambda>content. Inr []) = Inl UnicodeDecodeError
   \<and> load_whitelist True (Inr (replicate 100000 (CHR ''['')))
        (\<lambda>content. if content = replicate 100000 (CHR ''['') then Inl RecursionError else Inr [])
       = Inl RecursionError"
  by (simp add: load_whitelist_def)

section \<open>Unban\<close>

text \<open>
  Claim C5. For a numeric user id (one that passes \<open>isdigit\<close>), a 404 response of the
  entry delete makes \<open>unban_cmd\<close> answer with the "User Unbanned" embed in the
  informational colour: no error embed, no exception, and no further request.
\<close>

theorem unban_not_found_is_success:
  assumes "isdigit user_id" and "entry_delete user_id = Inr r" and "status_code r = 404"
  shows "unban_cmd entry_delete users_post display_name user_id
           = (Followup (Embed ''User Unbanned''
                (''User `'' @ user_id @ ''` was not found in the ban list.'') EMBED_COLOR_INFO),
              [DeleteEntry user_id])
         \<and> EMBED_COLOR_INFO \<noteq> EMBED_COLOR_ERROR"
  using assms by (simp add: unban_cmd_def colors_distinct)

theorem unban_not_found_is_success_witness:
  "isdigit ''12345''
   \<and> not_found_delete ''12345'' = Inr (http_response 404 (Inr empty_object))
   \<and> status_code (http_response 404 (Inr empty_object)) = 404
   \<and> unban_cmd not_found_delete no_users ''mod'' ''12345''
       = (Followup (Embed ''User Unbanned'' ''User `12345` was not found in the ban list.''
            EMBED_COLOR_INFO), [DeleteEntry ''12345''])"
proof -
  have h1: "isdigit ''12345''" by (simp add: isdigit_def is_ascii_digit_def)
  have h2: "not_found_delete ''12345'' = Inr (http_response 404 (Inr empty_object))"
    by (simp add: not_found_delete_def)
  have h3: "status_code (http_response 404 (Inr empty_object)) = 404"
    by (simp add: http_response_def)
  from unban_not_found_is_success[where entry_delete = not_found_delete
        and users_post = no_users and display_name = "''mod''", OF h1 h2 h3] h1 h2 h3
  show ?thesis by simp
qed

section \<open>Ban by identifier\<close>

lemma int_of_float_close: "\<bar>x - real_of_int (int_of_float x)\<bar> < 1"
  unfolding int_of_float_def by (cases "0 \<le> x") (simp; linarith)+





lemma builderman_ban_run:
  "banid_cmd builderman_users accept_post 1700000000.5 ''mod'' ''12345'' ''cheating''
     = (Followup
          \<lparr>title = ''User Banned (DataStore)'',
           description = ''Successfully banned **builderman** (`12345`).'',
           color = EMBED_COLOR_SUCCESS,
           embed_fields = [(''Reason'', ''cheating'')],
           footer = Some ''Banned by mod''\<rparr>,
        [PostUsers 12345,
         PostEntry ''12345''
           \<lparr>Reason = ''cheating'', BannedBy = ''mod (Discord)'',
            Username = ''builderman'', Timestamp = 1700000000\<rparr>])"
proof -
  have h1: "py_int ''12345'' = Some 12345" by (simp add: py_int_def is_ascii_digit_def int_max_str_digits_def)
  have d: "isdigit ''12345''" by (simp add: isdigit_def is_ascii_digit_def)
  have u: "get_username_from_id builderman_users 12345 = ''builderman''"
    by (simp add: get_username_from_id_def builderman_users_def http_response_def
        empty_object_def raise_for_status_def response_json_def)
  have t: "int_of_float 1700000000.5 = 1700000000" by (simp add: int_of_float_def)
  have a: "accept_post k b = Inr (http_response 200 (Inr empty_object))" for k b
    by (simp add: accept_post_def)
  have r: "raise_for_status (http_response 200 (Inr empty_object)) = Inr ()"
    by (simp add: raise_for_status_def http_response_def)
  show ?thesis using h1 d u t a r by (simp add: banid_cmd_def Let_def)
qed

text \<open>
  Claim C6, as the code has it. When \<open>banid_cmd\<close> answers with its success embed, it has
  written, under the user id as typed, a record whose reason is the given reason, whose
  \<open>BannedBy\<close> is the invoking user's display name followed by \<open> (Discord)\<close>, whose
  username is what \<open>get_username_from_id\<close> resolved for the identifier, and whose timestamp
  is the clock truncated to whole seconds, less than a second from the clock; a store
  that is read right after this write returns that record.
\<close>

theorem banid_written_record:
  assumes "banid_cmd users_post entry_post now display_name user_id reason = (Followup emb, calls)"
    and "color emb = EMBED_COLOR_SUCCESS"
  shows "\<exists>n. py_int user_id = Some n
           \<and> calls = [PostUsers n,
                PostEntry user_id
                  \<lparr>Reason = reason, BannedBy = display_name @ '' (Discord)'',
                   Username = get_username_from_id users_post n,
                   Timestamp = int_of_float now\<rparr>]
           \<and> entry_read
                (entry_write store user_id
                  \<lparr>Reason = reason, BannedBy = display_name @ '' (Discord)'',
                   Username = get_username_from_id users_post n,
                   Timestamp = int_of_float now\<rparr>) user_id
               = Some \<lparr>Reason = reason, BannedBy = display_name @ '' (Discord)'',
                   Username = get_username_from_id users_post n,
                   Timestamp = int_of_float now\<rparr>
           \<and> \<bar>now - real_of_int (int_of_float now)\<bar> < 1"
proof -
  have d: "isdigit user_id"
    using assms colors_distinct
    by (auto simp: banid_cmd_def Embed_def split: if_splits)
  then obtain n where n: "py_int user_id = Some n"
    using assms by (auto simp: banid_cmd_def split: option.splits)
  have "calls = [PostUsers n,
                PostEntry user_id
                  \<lparr>Reason = reason, BannedBy = display_name @ '' (Discord)'',
                   Username = get_username_from_id users_post n,
                   Timestamp = int_of_float now\<rparr>]"
    using assms(1) d n
    by (auto simp: banid_cmd_def Let_def split: sum.splits)
  then show ?thesis using n
    by (simp add: entry_read_def entry_write_def int_of_float_close)
qed

theorem banid_written_record_witness:
  "banid_cmd builderman_users accept_post 1700000000.5 ''mod'' ''12345'' ''cheating''
     = (Followup
          \<lparr>title = ''User Banned (DataStore)'',
           description = ''Successfully banned **builderman** (`12345`).'',
           color = EMBED_COLOR_SUCCESS,
           embed_fields = [(''Reason'', ''cheating'')],
           footer = Some ''Banned by mod''\<rparr>,
        [PostUsers 12345,
         PostEntry ''12345''
           \<lparr>Reason = ''cheating'', BannedBy = ''mod (Discord)'',
            Username = ''builderman'', Timestamp = 1700000000\<rparr>])
   \<and> entry_read
        (entry_write Map.empty ''12345''
           \<lparr>Reason = ''cheating'', BannedBy = ''mod (Discord)'',
            Username = ''builderman'', Timestamp = 1700000000\<rparr>) ''12345''
       = Some \<lparr>Reason = ''cheating'', BannedBy = ''mod (Discord)'',
            Username = ''builderman'', Timestamp = 1700000000\<rparr>
   \<and> \<bar>1700000000.5 - real_of_int 1700000000\<bar> < (1::real)"
proof -
  have h1: "py_int ''12345'' = Some 12345" by (simp add: py_int_def is_ascii_digit_def int_max_str_digits_def)
  have u: "get_username_from_id builderman_users 12345 = ''builderman''"
    by (simp add: get_username_from_id_def builderman_users_def http_response_def
        empty_object_def raise_for_status_def response_json_def)
  have t: "int_of_float 1700000000.5 = 1700000000" by (simp add: int_of_float_def)
  have col: "color \<lparr>title = ''User Banned (DataStore)'',
           description = ''Successfully banned **builderman** (`12345`).'',
           color = EMBED_COLOR_SUCCESS,
           embed_fields = [(''Reason'', ''cheating'')],
           footer = Some ''Banned by mod''\<rparr> = EMBED_COLOR_SUCCESS" by simp
  from banid_written_record[OF builderman_ban_run col, of Map.empty] obtain n where
    n: "py_int ''12345'' = Some n"
    and w: "entry_read
        (entry_write Map.empty ''12345''
           \<lparr>Reason = ''cheating'', BannedBy = ''mod'' @ '' (Discord)'',
            Username = get_username_from_id builderman_users n,
            Timestamp = int_of_float 1700000000.5\<rparr>) ''12345''
       = Some \<lparr>Reason = ''cheating'', BannedBy = ''mod'' @ '' (Discord)'',
            Username = get_username_from_id builderman_users n,
            Timestamp = int_of_float 1700000000.5\<rparr>"
    and c: "\<bar>1700000000.5 - real_of_int (int_of_float 1700000000.5)\<bar> < 1"
    by blast
  from n h1 have "n = 12345" by simp
  with w c u t builderman_ban_run show ?thesis by simp
qed

text \<open>
  Claim C6 as stated fails on the actor field: the record written for the actor \<open>mod\<close>
  has \<open>BannedBy = mod (Discord)\<close>, which is not the call's input; its username is the
  name the lookup returned, which is no input of the call either.
\<close>

theorem banid_actor_field_is_decorated:
  "banid_cmd builderman_users accept_post 1700000000.5 ''mod'' ''12345'' ''cheating''
     = (Followup
          \<lparr>title = ''User Banned (DataStore)'',
           description = ''Successfully banned **builderman** (`12345`).'',
           color = EMBED_COLOR_SUCCESS,
           embed_fields = [(''Reason'', ''cheating'')],
           footer = Some ''Banned by mod''\<rparr>,
        [PostUsers 12345,
         PostEntry ''12345''
           \<lparr>Reason = ''cheating'', BannedBy = ''mod (Discord)'',
            Username = ''builderman'', Timestamp = 1700000000\<rparr>])
   \<and> ''mod (Discord)'' \<noteq> ''mod''"
  using builderman_ban_run by simp

section \<open>Properties of the ban list\<close>

lemma list_ban_keys_last_page:
  assumes "listing_page (entries_get c) = Some (ks, [])"
  shows "list_ban_keys entries_get c ban_keys calls
           = Some (Inr (ban_keys @ ks), calls @ [ListEntries c])"
  using assms
  by (subst list_ban_keys.simps)
     (auto simp: listing_page_def raise_for_status_def response_json_def
       split: sum.splits option.splits if_splits)

lemma list_ban_keys_next_page:
  assumes "listing_page (entries_get c) = Some (ks, nc)" and "nc \<noteq> []"
  shows "list_ban_keys entries_get c ban_keys calls
           = list_ban_keys entries_get nc (ban_keys @ ks) (calls @ [ListEntries c])"
  using assms
  by (subst list_ban_keys.simps)
     (auto simp: listing_page_def raise_for_status_def response_json_def
       split: sum.splits option.splits if_splits)

lemma list_ban_keys_failure:
  assumes "listing_page (entries_get c) = None"
  shows "\<exists>e. list_ban_keys entries_get c ban_keys calls = Some (Inl e, calls @ [ListEntries c])"
  using assms
  by (subst list_ban_keys.simps)
     (auto simp: listing_page_def raise_for_status_def response_json_def
       split: sum.splits option.splits if_splits)

lemma list_ban_keys_pages:
  "serves_pages entries_get c pages \<Longrightarrow>
   list_ban_keys entries_get c ban_keys calls
     = Some (Inr (ban_keys @ concat (map fst pages)),
             calls @ map ListEntries (c # butlast (map snd pages)))"
proof (induction entries_get c pages arbitrary: ban_keys calls rule: serves_pages.induct)
  case (1 entries_get c)
  then show ?case by simp
next
  case (2 entries_get c ks nc)
  then show ?case by (simp add: list_ban_keys_last_page)
next
  case (3 entries_get c ks nc p ps)
  then show ?case by (simp add: list_ban_keys_next_page)
qed

lemma fetch_ban_entry_404:
  assumes "entry_get k = Inr r" and "status_code r = 404"
  shows "fetch_ban_entry entry_get strftime_utc k
           = Inr (''[ERROR] Data for key `'' @ k @ ''` was not found (404).'')"
  using assms by (simp add: fetch_ban_entry_def)

lemma fetch_ban_entry_403:
  assumes "entry_get k = Inr r" and "status_code r = 403"
  shows "fetch_ban_entry entry_get strftime_utc k
           = Inl \<lparr>exc_response = Some r, exc_str = http_error_msg r\<rparr>"
  using assms by (simp add: fetch_ban_entry_def raise_for_status_def)

lemma fetch_ban_entry_Inl:
  assumes "fetch_ban_entry entry_get strftime_utc k = Inl e"
  shows "\<exists>r. exc_response e = Some r \<and> status_code r = 403"
  using assms
  by (auto simp: fetch_ban_entry_def split: sum.splits option.splits if_splits)

lemma fetch_ban_entries_Inr:
  "fetch_ban_entries entry_get strftime_utc ks acc cs = (Inr out, cs') \<Longrightarrow>
   out = acc @ map (\<lambda>k. projr (fetch_ban_entry entry_get strftime_utc k)) ks
   \<and> cs' = cs @ map GetEntry ks"
proof (induction ks arbitrary: acc cs)
  case Nil
  then show ?case by simp
next
  case (Cons x xs)
  from Cons.prems obtain s where s: "fetch_ban_entry entry_get strftime_utc x = Inr s"
    and rest: "fetch_ban_entries entry_get strftime_utc xs (acc @ [s]) (cs @ [GetEntry x])
                 = (Inr out, cs')"
    by (auto split: sum.splits)
  from Cons.IH[OF rest] s show ?case by simp
qed

lemma fetch_ban_entries_no_abort:
  "\<forall>k\<in>set ks. \<not> isl (fetch_ban_entry entry_get strftime_utc k) \<Longrightarrow>
   fetch_ban_entries entry_get strftime_utc ks acc cs
     = (Inr (acc @ map (\<lambda>k. projr (fetch_ban_entry entry_get strftime_utc k)) ks),
        cs @ map GetEntry ks)"
proof (induction ks arbitrary: acc cs)
  case Nil
  then show ?case by simp
next
  case (Cons x xs)
  then obtain s where s: "fetch_ban_entry entry_get strftime_utc x = Inr s"
    by (cases "fetch_ban_entry entry_get strftime_utc x") auto
  from Cons.prems have "\<forall>k\<in>set xs. \<not> isl (fetch_ban_entry entry_get strftime_utc k)" by simp
  from Cons.IH[OF this, of "acc @ [s]" "cs @ [GetEntry x]"] s show ?case by simp
qed

lemma fetch_ban_entries_abort:
  "k \<in> set ks \<Longrightarrow> isl (fetch_ban_entry entry_get strftime_utc k) \<Longrightarrow>
   \<exists>ks1 k' ks2 e. ks = ks1 @ k' # ks2
      \<and> fetch_ban_entry entry_get strftime_utc k' = Inl e
      \<and> fetch_ban_entries entry_get strftime_utc ks acc cs
          = (Inl e, cs @ map GetEntry ks1 @ [GetEntry k'])"
proof (induction ks arbitrary: acc cs)
  case Nil
  then show ?case by simp
next
  case (Cons x xs)
  show ?case
  proof (cases "fetch_ban_entry entry_get strftime_utc x")
    case (Inl e)
    then have "x # xs = [] @ x # xs
      \<and> fetch_ban_entry entry_get strftime_utc x = Inl e
      \<and> fetch_ban_entries entry_get strftime_utc (x # xs) acc cs
          = (Inl e, cs @ map GetEntry [] @ [GetEntry x])" by simp
    then show ?thesis by blast
  next
    case (Inr s)
    with Cons.prems have "k \<in> set xs" by auto
    from Cons.IH[OF this Cons.prems(2), of "acc @ [s]" "cs @ [GetEntry x]"]
    obtain ks1 k' ks2 e where
      "xs = ks1 @ k' # ks2" "fetch_ban_entry entry_get strftime_utc k' = Inl e"
      "fetch_ban_entries entry_get strftime_utc xs (acc @ [s]) (cs @ [GetEntry x])
          = (Inl e, (cs @ [GetEntry x]) @ map GetEntry ks1 @ [GetEntry k'])"
      by blast
    with Inr have "x # xs = (x # ks1) @ k' # ks2
      \<and> fetch_ban_entry entry_get strftime_utc k' = Inl e
      \<and> fetch_ban_entries entry_get strftime_utc (x # xs) acc cs
          = (Inl e, cs @ map GetEntry (x # ks1) @ [GetEntry k'])" by simp
    then show ?thesis by blast
  qed
qed

lemma fetch_ban_entry_not_denied:
  assumes "\<not> permission_denied (entry_get x)"
  shows "\<not> isl (fetch_ban_entry entry_get strftime_utc x)"
  using assms
  by (auto simp: permission_denied_def fetch_ban_entry_def raise_for_status_def
      response_json_def split: sum.splits option.splits if_splits)

lemma fetch_ban_entry_denied:
  assumes "permission_denied (entry_get x)"
  shows "isl (fetch_ban_entry entry_get strftime_utc x)"
  using assms
  by (auto simp: permission_denied_def fetch_ban_entry_def raise_for_status_def
      response_json_def split: sum.splits option.splits if_splits)

lemma fetch_ban_entries_first_abort:
  "\<forall>x\<in>set ks1. \<not> isl (fetch_ban_entry entry_get strftime_utc x) \<Longrightarrow>
   fetch_ban_entry entry_get strftime_utc k = Inl e \<Longrightarrow>
   fetch_ban_entries entry_get strftime_utc (ks1 @ k # ks2) acc cs
     = (Inl e, cs @ map GetEntry ks1 @ [GetEntry k])"
proof (induction ks1 arbitrary: acc cs)
  case Nil
  then show ?case by simp
next
  case (Cons x xs)
  then obtain s where s: "fetch_ban_entry entry_get strftime_utc x = Inr s"
    by (cases "fetch_ban_entry entry_get strftime_utc x") auto
  from Cons.prems have "\<forall>y\<in>set xs. \<not> isl (fetch_ban_entry entry_get strftime_utc y)" by simp
  from Cons.IH[OF this Cons.prems(2), of "acc @ [s]" "cs @ [GetEntry x]"] s
  show ?case by simp
qed

lemma get_datastore_ban_list_abort:
  assumes "list_ban_keys entries_get [] [] [] = Some (Inr ks, cs)"
    and "fetch_ban_entries entry_get strftime_utc ks [] cs = (Inl e, cs')"
  shows "get_datastore_ban_list entries_get entry_get strftime_utc = Some (Inl e, cs')"
proof -
  have "ks \<noteq> []" using assms(2) by (cases ks) auto
  then show ?thesis using assms by (simp add: get_datastore_ban_list_def)
qed

lemma get_datastore_ban_list_sorted:
  assumes "list_ban_keys entries_get [] [] [] = Some (Inr ks, cs)"
    and "fetch_ban_entries entry_get strftime_utc ks [] cs = (Inr strs, cs')"
  shows "get_datastore_ban_list entries_get entry_get strftime_utc = Some (Inr (sort strs), cs')"
proof (cases "ks = []")
  case True
  then show ?thesis using assms by (simp add: get_datastore_ban_list_def)
next
  case False
  then show ?thesis using assms by (simp add: get_datastore_ban_list_def)
qed

lemma lexicographic_le:
  "(a \<le> b) = (a = b \<or> (a, b) \<in> lexord {(c, d). (of_char c :: nat) < of_char d})"
  for a b :: string
proof -
  have "{(c :: char, d). c < d} = {(c, d). (of_char c :: nat) < of_char d}"
    by (simp add: less_char_def)
  then show ?thesis by (auto simp: list_le_def list_less_def)
qed

text \<open>The example listings and entries, run.\<close>

lemma two_page_listing_serves:
  "serves_pages two_page_listing [] [([''5'', ''7''], ''next''), ([''6''], [])]"
  by (simp add: two_page_listing_def listing_response_def listing_page_def http_response_def
      empty_object_def)

lemma two_page_listing_keys:
  "list_ban_keys two_page_listing [] [] []
     = Some (Inr [''5'', ''7'', ''6''], [ListEntries [], ListEntries ''next''])"
  using list_ban_keys_pages[OF two_page_listing_serves, of "[]" "[]"] by simp

lemma denied_listing_keys:
  "list_ban_keys denied_listing [] [] [] = Some (Inr [''7'', ''9'', ''6''], [ListEntries []])"
proof -
  have "serves_pages denied_listing [] [([''7'', ''9'', ''6''], [])]"
    by (simp add: denied_listing_def listing_response_def listing_page_def http_response_def
        empty_object_def)
  from list_ban_keys_pages[OF this, of "[]" "[]"] show ?thesis by simp
qed

lemma sample_entry_5:
  "fetch_ban_entry sample_entries sample_strftime ''5''
     = Inr ''[ERROR] Data for key `5` was not found (404).''"
  by (simp add: fetch_ban_entry_def sample_entries_def http_response_def)

lemma sample_entry_7:
  "fetch_ban_entry sample_entries sample_strftime ''7''
     = Inr ''[1970-01-01 00:00] **zed** (By: mod (Discord)) - *x*''"
  by (simp add: fetch_ban_entry_def sample_entries_def ban_entry_response_def http_response_def
      empty_object_def raise_for_status_def response_json_def ban_summary_def sample_strftime_def)

lemma sample_entry_6:
  "fetch_ban_entry sample_entries sample_strftime ''6''
     = Inr ''[1970-01-01 00:00] **amy** (By: mod (Discord)) - *x*''"
  by (simp add: fetch_ban_entry_def sample_entries_def ban_entry_response_def http_response_def
      empty_object_def raise_for_status_def response_json_def ban_summary_def sample_strftime_def)

lemma sample_sort:
  "sort [''[ERROR] Data for key `5` was not found (404).'',
         ''[1970-01-01 00:00] **zed** (By: mod (Discord)) - *x*'',
         ''[1970-01-01 00:00] **amy** (By: mod (Discord)) - *x*'']
   = [''[1970-01-01 00:00] **amy** (By: mod (Discord)) - *x*'',
      ''[1970-01-01 00:00] **zed** (By: mod (Discord)) - *x*'',
      ''[ERROR] Data for key `5` was not found (404).'']"
  by (simp add: less_eq_char_def less_char_def)

lemma two_page_run:
  "get_datastore_ban_list two_page_listing sample_entries sample_strftime
     = Some (Inr [''[1970-01-01 00:00] **amy** (By: mod (Discord)) - *x*'',
                  ''[1970-01-01 00:00] **zed** (By: mod (Discord)) - *x*'',
                  ''[ERROR] Data for key `5` was not found (404).''],
             [ListEntries [], ListEntries ''next'', GetEntry ''5'', GetEntry ''7'', GetEntry ''6''])"
proof -
  have "fetch_ban_entries sample_entries sample_strftime [''5'', ''7'', ''6''] []
          [ListEntries [], ListEntries ''next'']
        = (Inr [''[ERROR] Data for key `5` was not found (404).'',
                ''[1970-01-01 00:00] **zed** (By: mod (Discord)) - *x*'',
                ''[1970-01-01 00:00] **amy** (By: mod (Discord)) - *x*''],
           [ListEntries [], ListEntries ''next'', GetEntry ''5'', GetEntry ''7'', GetEntry ''6''])"
    by (simp add: sample_entry_5 sample_entry_6 sample_entry_7)
  from get_datastore_ban_list_sorted[OF two_page_listing_keys this] show ?thesis
    by (simp only: sample_sort)
qed

text \<open>
  Claim C2. When the entry read answers a listed key with status 403, no read before it
  having been denied, \<open>get_datastore_ban_list\<close> returns the failure alone: the
  \<open>HTTPError\<close> that \<open>raise_for_status\<close> raised for that very response, and none of the
  summaries collected for the keys before it. The denied read is the last request
  sent: none of the keys after it is read.
\<close>

theorem list_bans_aborts_on_403:
  assumes "list_ban_keys entries_get [] [] [] = Some (Inr (ks1 @ k # ks2), calls)"
    and "\<forall>x\<in>set ks1. \<not> permission_denied (entry_get x)"
    and "entry_get k = Inr r" and "status_code r = 403"
  shows "get_datastore_ban_list entries_get entry_get strftime_utc
           = Some (Inl \<lparr>exc_response = Some r, exc_str = http_error_msg r\<rparr>,
                   calls @ map GetEntry ks1 @ [GetEntry k])"
proof -
  have "\<forall>x\<in>set ks1. \<not> isl (fetch_ban_entry entry_get strftime_utc x)"
    using assms(2) fetch_ban_entry_not_denied by blast
  from fetch_ban_entries_first_abort[OF this
      fetch_ban_entry_403[where entry_get = entry_get, OF assms(3,4)]]
  have "fetch_ban_entries entry_get strftime_utc (ks1 @ k # ks2) [] calls
          = (Inl \<lparr>exc_response = Some r, exc_str = http_error_msg r\<rparr>,
             calls @ map GetEntry ks1 @ [GetEntry k])" .
  from get_datastore_ban_list_abort[OF assms(1) this] show ?thesis .
qed

theorem list_bans_aborts_on_403_witness:
  "list_ban_keys denied_listing [] [] [] = Some (Inr ([''7''] @ ''9'' # [''6'']), [ListEntries []])
   \<and> \<not> permission_denied (sample_entries ''7'')
   \<and> sample_entries ''9'' = Inr (http_response 403 (Inr empty_object))
   \<and> status_code (http_response 403 (Inr empty_object)) = 403
   \<and> get_datastore_ban_list denied_listing sample_entries sample_strftime
       = Some (Inl \<lparr>exc_response = Some (http_response 403 (Inr empty_object)), exc_str = []\<rparr>,
               [ListEntries [], GetEntry ''7'', GetEntry ''9''])"
proof -
  have h1: "list_ban_keys denied_listing [] [] []
              = Some (Inr ([''7''] @ ''9'' # [''6'']), [ListEntries []])"
    using denied_listing_keys by simp
  have n: "\<not> permission_denied (sample_entries ''7'')"
    by (simp add: permission_denied_def sample_entries_def ban_entry_response_def
        http_response_def)
  then have h2: "\<forall>x\<in>set [''7'']. \<not> permission_denied (sample_entries x)" by simp
  have h3: "sample_entries ''9'' = Inr (http_response 403 (Inr empty_object))"
    by (simp add: sample_entries_def)
  have h4: "status_code (http_response 403 (Inr empty_object)) = 403"
    by (simp add: http_response_def)
  have m: "http_error_msg (http_response 403 (Inr empty_object)) = []"
    by (simp add: http_response_def)
  from list_bans_aborts_on_403[where entries_get = denied_listing
      and entry_get = sample_entries and strftime_utc = sample_strftime, OF h1 h2 h3 h4]
  have "get_datastore_ban_list denied_listing sample_entries sample_strftime
       = Some (Inl \<lparr>exc_response = Some (http_response 403 (Inr empty_object)), exc_str = []\<rparr>,
               [ListEntries [], GetEntry ''7'', GetEntry ''9''])"
    using m by simp
  with h1 n h3 h4 show ?thesis by blast
qed

text \<open>
  Claim C3. When the entry read answers a listed key with status 404, the iteration for
  that key appends the error marker that names the key and the loop goes on with the
  remaining keys; the marker differs from the entry of a read that failed otherwise; and
  whenever the function returns a list, the marker is in it, the list has one entry for
  each listed key, and every listed key has been read.
\<close>

theorem list_bans_404_marker_continues:
  assumes "list_ban_keys entries_get [] [] [] = Some (Inr ban_keys, calls)"
    and "k \<in> set ban_keys" and "entry_get k = Inr r" and "status_code r = 404"
  shows "fetch_ban_entries entry_get strftime_utc (k # rest) acc cs
           = fetch_ban_entries entry_get strftime_utc rest
               (acc @ [''[ERROR] Data for key `'' @ k @ ''` was not found (404).''])
               (cs @ [GetEntry k])
       \<and> (\<forall>k'. ''[ERROR] Data for key `'' @ k @ ''` was not found (404).''
                 \<noteq> ''[ERROR] Could not fetch data for key: `'' @ k' @ ''`'')
       \<and> (get_datastore_ban_list entries_get entry_get strftime_utc = Some (Inr out, calls')
            \<longrightarrow> ''[ERROR] Data for key `'' @ k @ ''` was not found (404).'' \<in> set out
                \<and> length out = length ban_keys
                \<and> calls' = calls @ map GetEntry ban_keys)"
proof -
  note m = fetch_ban_entry_404[where entry_get = entry_get and strftime_utc = strftime_utc,
      OF assms(3,4)]
  have step: "fetch_ban_entries entry_get strftime_utc (k # rest) acc cs
           = fetch_ban_entries entry_get strftime_utc rest
               (acc @ [''[ERROR] Data for key `'' @ k @ ''` was not found (404).''])
               (cs @ [GetEntry k])"
    using m by simp
  have dist: "\<forall>k'. ''[ERROR] Data for key `'' @ k @ ''` was not found (404).''
                 \<noteq> ''[ERROR] Could not fetch data for key: `'' @ k' @ ''`''"
    by simp
  have ne: "ban_keys \<noteq> []" using assms(2) by auto
  have run: "''[ERROR] Data for key `'' @ k @ ''` was not found (404).'' \<in> set out
                \<and> length out = length ban_keys
                \<and> calls' = calls @ map GetEntry ban_keys"
    if "get_datastore_ban_list entries_get entry_get strftime_utc = Some (Inr out, calls')"
  proof -
    from that ne assms(1) obtain strs where
      f: "fetch_ban_entries entry_get strftime_utc ban_keys [] calls = (Inr strs, calls')"
      and o: "out = sort strs"
      by (auto simp: get_datastore_ban_list_def split: prod.splits sum.splits)
    from fetch_ban_entries_Inr[OF f]
    have strs: "strs = map (\<lambda>k. projr (fetch_ban_entry entry_get strftime_utc k)) ban_keys"
      and c: "calls' = calls @ map GetEntry ban_keys" by simp_all
    have "projr (fetch_ban_entry entry_get strftime_utc k) \<in> set strs"
      using assms(2) strs by auto
    then show ?thesis using m o c strs by simp
  qed
  from step dist run show ?thesis by blast
qed

theorem list_bans_404_marker_continues_witness:
  "list_ban_keys two_page_listing [] [] []
     = Some (Inr [''5'', ''7'', ''6''], [ListEntries [], ListEntries ''next''])
   \<and> ''5'' \<in> set [''5'', ''7'', ''6'']
   \<and> sample_entries ''5'' = Inr (http_response 404 (Inl ''no body''))
   \<and> status_code (http_response 404 (Inl ''no body'')) = 404
   \<and> get_datastore_ban_list two_page_listing sample_entries sample_strftime
       = Some (Inr [''[1970-01-01 00:00] **amy** (By: mod (Discord)) - *x*'',
                    ''[1970-01-01 00:00] **zed** (By: mod (Discord)) - *x*'',
                    ''[ERROR] Data for key `5` was not found (404).''],
               [ListEntries [], ListEntries ''next'', GetEntry ''5'', GetEntry ''7'', GetEntry ''6''])
   \<and> ''[ERROR] Data for key `5` was not found (404).''
       \<in> set [''[1970-01-01 00:00] **amy** (By: mod (Discord)) - *x*'',
               ''[1970-01-01 00:00] **zed** (By: mod (Discord)) - *x*'',
               ''[ERROR] Data for key `5` was not found (404).'']
   \<and> fetch_ban_entries sample_entries sample_strftime [''5'', ''7''] [] []
       = fetch_ban_entries sample_entries sample_strftime [''7'']
           [''[ERROR] Data for key `5` was not found (404).''] [GetEntry ''5'']"
proof -
  have h2: "''5'' \<in> set [''5'', ''7'', ''6'']" by simp
  have h3: "sample_entries ''5'' = Inr (http_response 404 (Inl ''no body''))"
    by (simp add: sample_entries_def)
  have h4: "status_code (http_response 404 (Inl ''no body'')) = 404"
    by (simp add: http_response_def)
  note c = list_bans_404_marker_continues[where entries_get = two_page_listing and entry_get = sample_entries
      and strftime_utc = sample_strftime and rest = "[''7'']" and acc = "[]" and cs = "[]",
      OF two_page_listing_keys h2 h3 h4]
  have step: "fetch_ban_entries sample_entries sample_strftime [''5'', ''7''] [] []
       = fetch_ban_entries sample_entries sample_strftime [''7'']
           [''[ERROR] Data for key `5` was not found (404).''] [GetEntry ''5'']"
    using c by simp
  have "''[ERROR] Data for key `5` was not found (404).''
       \<in> set [''[1970-01-01 00:00] **amy** (By: mod (Discord)) - *x*'',
               ''[1970-01-01 00:00] **zed** (By: mod (Discord)) - *x*'',
               ''[ERROR] Data for key `5` was not found (404).'']"
    using c two_page_run by simp
  with step two_page_listing_keys h2 h3 h4 two_page_run show ?thesis by blast
qed

text \<open>
  Claim C4. Against a key listing that returns the given pages, the first loop requests
  one page after the other, following the cursors, until the page without cursor, and
  returns the keys of all pages in order. In the whole run every entry read comes after
  all of these listing requests; the keys read are a prefix of the keys of all pages, and
  are all of them whenever the function returns a list.
\<close>

theorem list_bans_drains_pages_first:
  assumes "serves_pages entries_get [] pages"
  shows "list_ban_keys entries_get [] [] []
           = Some (Inr (concat (map fst pages)), map ListEntries ([] # butlast (map snd pages)))
       \<and> (\<exists>res fetched rest.
             get_datastore_ban_list entries_get entry_get strftime_utc
               = Some (res, map ListEntries ([] # butlast (map snd pages)) @ map GetEntry fetched)
             \<and> concat (map fst pages) = fetched @ rest
             \<and> ((\<exists>out. res = Inr out) \<longrightarrow> rest = []))"
proof -
  define K where "K = concat (map fst pages)"
  define L where "L = map ListEntries ([] # butlast (map snd pages))"
  have keys: "list_ban_keys entries_get [] [] [] = Some (Inr K, L)"
    using list_ban_keys_pages[OF assms, of "[]" "[]"] by (simp add: K_def L_def)
  have "\<exists>res fetched rest.
             get_datastore_ban_list entries_get entry_get strftime_utc
               = Some (res, L @ map GetEntry fetched)
             \<and> K = fetched @ rest \<and> ((\<exists>out. res = Inr out) \<longrightarrow> rest = [])"
  proof (cases "\<exists>k\<in>set K. isl (fetch_ban_entry entry_get strftime_utc k)")
    case True
    then obtain k where k: "k \<in> set K" "isl (fetch_ban_entry entry_get strftime_utc k)" by blast
    from fetch_ban_entries_abort[OF k, of "[]" L]
    obtain ks1 k' ks2 e where s: "K = ks1 @ k' # ks2"
      and run: "fetch_ban_entries entry_get strftime_utc K [] L
          = (Inl e, L @ map GetEntry ks1 @ [GetEntry k'])"
      by blast
    have "get_datastore_ban_list entries_get entry_get strftime_utc
               = Some (Inl e, L @ map GetEntry (ks1 @ [k']))"
      using get_datastore_ban_list_abort[OF keys run] by simp
    moreover have "K = (ks1 @ [k']) @ ks2" using s by simp
    ultimately show ?thesis
      by (intro exI[of _ "Inl e"] exI[of _ "ks1 @ [k']"] exI[of _ ks2]) simp
  next
    case False
    then have a: "\<forall>k\<in>set K. \<not> isl (fetch_ban_entry entry_get strftime_utc k)" by blast
    have "get_datastore_ban_list entries_get entry_get strftime_utc
               = Some (Inr (sort (map (\<lambda>k. projr (fetch_ban_entry entry_get strftime_utc k)) K)),
                       L @ map GetEntry K)"
      using get_datastore_ban_list_sorted[OF keys] fetch_ban_entries_no_abort[OF a, of "[]" L]
      by simp
    then show ?thesis
      by (intro exI[of _ "Inr (sort (map (\<lambda>k. projr (fetch_ban_entry entry_get strftime_utc k)) K))"]
          exI[of _ K] exI[of _ "[]"]) simp
  qed
  with keys show ?thesis unfolding K_def L_def by blast
qed
theorem list_bans_drains_pages_first_witness:
  "serves_pages two_page_listing [] [([''5'', ''7''], ''next''), ([''6''], [])]
   \<and> list_ban_keys two_page_listing [] [] []
       = Some (Inr [''5'', ''7'', ''6''], [ListEntries [], ListEntries ''next''])
   \<and> get_datastore_ban_list two_page_listing sample_entries sample_strftime
       = Some (Inr [''[1970-01-01 00:00] **amy** (By: mod (Discord)) - *x*'',
                    ''[1970-01-01 00:00] **zed** (By: mod (Discord)) - *x*'',
                    ''[ERROR] Data for key `5` was not found (404).''],
               [ListEntries [], ListEntries ''next'', GetEntry ''5'', GetEntry ''7'', GetEntry ''6''])"
proof -
  from list_bans_drains_pages_first[OF two_page_listing_serves, of sample_entries sample_strftime]
  have "list_ban_keys two_page_listing [] [] []
       = Some (Inr [''5'', ''7'', ''6''], [ListEntries [], ListEntries ''next''])"
    by simp
  with two_page_listing_serves two_page_run show ?thesis by blast
qed

text \<open>
  Claim C9. Whenever \<open>get_datastore_ban_list\<close> returns a list, the list is sorted in the
  order of the strings themselves: of two entries, the earlier one is equal to the later
  one or precedes it lexicographically, character code by character code. It is the
  sorted list of the summaries that the second loop collected, whatever their
  timestamps and keys.
\<close>

theorem list_bans_output_sorted:
  assumes "get_datastore_ban_list entries_get entry_get strftime_utc = Some (Inr out, calls)"
  shows "sorted out
       \<and> sorted_wrt (\<lambda>a b. a = b \<or> (a, b) \<in> lexord {(c, d). (of_char c :: nat) < of_char d}) out
       \<and> (\<exists>ban_keys cs ban_list_strings.
             list_ban_keys entries_get [] [] [] = Some (Inr ban_keys, cs)
             \<and> fetch_ban_entries entry_get strftime_utc ban_keys [] cs
                 = (Inr ban_list_strings, calls)
             \<and> out = sort ban_list_strings)"
proof -
  from assms obtain ban_keys cs where k: "list_ban_keys entries_get [] [] [] = Some (Inr ban_keys, cs)"
    by (auto simp: get_datastore_ban_list_def split: option.splits prod.splits sum.splits)
  have "\<exists>ban_list_strings. fetch_ban_entries entry_get strftime_utc ban_keys [] cs
                 = (Inr ban_list_strings, calls) \<and> out = sort ban_list_strings"
  proof (cases "ban_keys = []")
    case True
    then show ?thesis using assms k by (simp add: get_datastore_ban_list_def)
  next
    case False
    then show ?thesis using assms k
      by (auto simp: get_datastore_ban_list_def split: prod.splits sum.splits)
  qed
  then obtain ban_list_strings where f: "fetch_ban_entries entry_get strftime_utc ban_keys [] cs
                 = (Inr ban_list_strings, calls)" and o: "out = sort ban_list_strings" by blast
  have s: "sorted out" using o by simp
  then have "sorted_wrt (\<lambda>a b. a = b \<or> (a, b) \<in> lexord {(c, d). (of_char c :: nat) < of_char d}) out"
    using lexicographic_le by (simp add: sorted_wrt_iff_nth_less sorted_iff_nth_mono_less)
  with s k f o show ?thesis by blast
qed

theorem list_bans_output_sorted_witness:
  "get_datastore_ban_list two_page_listing sample_entries sample_strftime
     = Some (Inr [''[1970-01-01 00:00] **amy** (By: mod (Discord)) - *x*'',
                  ''[1970-01-01 00:00] **zed** (By: mod (Discord)) - *x*'',
                  ''[ERROR] Data for key `5` was not found (404).''],
             [ListEntries [], ListEntries ''next'', GetEntry ''5'', GetEntry ''7'', GetEntry ''6''])
   \<and> sorted [''[1970-01-01 00:00] **amy** (By: mod (Discord)) - *x*'',
              ''[1970-01-01 00:00] **zed** (By: mod (Discord)) - *x*'',
              ''[ERROR] Data for key `5` was not found (404).'']"
proof -
  from list_bans_output_sorted[OF two_page_run]
  have "sorted [''[1970-01-01 00:00] **amy** (By: mod (Discord)) - *x*'',
              ''[1970-01-01 00:00] **zed** (By: mod (Discord)) - *x*'',
              ''[ERROR] Data for key `5` was not found (404).'']"
    by (rule conjunct1)
  with two_page_run show ?thesis by (rule conjI)
qed

end
